theory Spec2Isabelle
  imports Main
begin

section \<open>The command line interface (examples/cli.py)\<close>

subsection \<open>Data\<close>

text \<open>
  The result dictionaries handed to the reports. \<open>description\<close> is the nested
  dictionary \<open>x['description']\<close> with its keys \<open>product\<close> and \<open>secret\<close>; a result
  carries the keys the reports read. The value \<open>None\<close> of \<open>hashcat\<close> is Python's
  \<open>None\<close>. The key \<open>type\<close> is \<open>rtype\<close> here.
\<close>

record description =
  d_product :: string
  d_secret :: string

record hashcat_candidate =
  hc_detecting_module :: string
  hashcat_description :: string
  hashcat_command :: string

record result =
  rtype :: string
  detecting_module :: string
  description :: description
  product :: string
  location :: string
  secret :: string
  details :: string
  hashcat :: "hashcat_candidate list option"

text \<open>The response surface the engine consumes: headers, cookies, body.\<close>

record response =
  headers :: "(string \<times> string) list"
  cookies :: "(string \<times> string) list"
  body :: string

text \<open>
  Exceptions by how the handler of line 141 sees them: the two classes it names, and
  every exception that is an instance of neither (carried by its class name).
\<close>

datatype exn = ConnectionError | ConnectTimeout | OtherException string

text \<open>The namespace returned by \<open>parse_args\<close>.\<close>

record args =
  url :: "string option"
  no_hashcat :: bool
  custom_secrets :: "string option"
  arg_product :: "string list"
  proxy :: "string option"
  user_agent :: "string option"

text \<open>
  What a run does, in order: lines printed, calls made to the imported functions, and
  the usage error of \<open>parser.error\<close>.
\<close>

datatype event =
    Print string
  | ParserError string
  | Call_get string "(string \<times> string) list option" "(string \<times> string) list"
  | Call_carve response
  | Call_check "string list" "string option"
  | Call_hashcat "string list"

datatype outcome = Returned | Exited nat | Raised exn

text \<open>
  The functions \<open>main\<close> imports: \<open>requests.get\<close> and the three entry points of
  \<open>badsecrets.base\<close>. Each either raises or returns. \<open>carve_all_modules\<close> may return
  \<open>None\<close> or a list, \<open>check_all_modules\<close> \<open>None\<close> or a result.
\<close>

record env =
  env_get :: "string \<Rightarrow> (string \<times> string) list option \<Rightarrow> (string \<times> string) list \<Rightarrow> exn + response"
  env_carve :: "response \<Rightarrow> exn + result list option"
  env_check :: "string list \<Rightarrow> string option \<Rightarrow> exn + result option"
  env_hashcat :: "string list \<Rightarrow> exn + hashcat_candidate list"

subsection \<open>validate_file\<close>

text \<open>
  The file system as \<open>validate_file\<close> reads it: a path that exists has a kind and a
  size in bytes.
\<close>

record stat =
  isfile :: bool
  getsize :: nat

type_synonym filesystem = "string \<Rightarrow> stat option"

datatype arg_error = ArgumentTypeError string

definition validate_file :: "filesystem \<Rightarrow> string \<Rightarrow> arg_error + string" where
  "validate_file fs file =
     (case fs file of
        None \<Rightarrow> Inl (ArgumentTypeError (''The file '' @ file @ '' does not exist!''))
      | Some st \<Rightarrow>
          if \<not> isfile st then Inl (ArgumentTypeError (file @ '' is not a valid file!''))
          else if getsize st > 100 * 1024 then
            Inl (ArgumentTypeError
                  (''The file '' @ file @ '' exceeds the maximum limit of 100KB!''))
          else Inr file)"

subsection \<open>Reports\<close>

definition print_hashcat_results :: "hashcat_candidate list \<Rightarrow> event list" where
  "print_hashcat_results hashcat_candidates =
     Print ''\<newline>Potential matching hashcat commands:\<newline>'' #
     map (\<lambda>hc. Print (''Module: ['' @ hc_detecting_module hc @ ''] '' @ hashcat_description hc
                        @ '' Command: ['' @ hashcat_command hc @ '']''))
         hashcat_candidates"

definition print_report :: "result \<Rightarrow> string \<Rightarrow> event list" where
  "print_report x report_message =
     [Print ''***********************'',
      Print report_message,
      Print (''Detecting Module: '' @ detecting_module x @ ''\<newline>''),
      Print (''Product Type: '' @ d_product (description x)),
      Print (''Product: '' @ product x),
      Print (''Secret Type: '' @ d_secret (description x)),
      Print (''Location: '' @ location x)]"

definition ReportSecret :: "result \<Rightarrow> event list" where
  "ReportSecret x =
     print_report x ''Known Secret Found!\<newline>'' @
     [Print (''Secret: '' @ secret x), Print (''Details: '' @ details x)]"

definition ReportIdentify :: "result \<Rightarrow> event list" where
  "ReportIdentify x =
     print_report x ''Cryptographic Product Identified (no vulnerability)\<newline>'' @
     (case hashcat x of None \<Rightarrow> [] | Some hcs \<Rightarrow> print_hashcat_results hcs)"




subsection \<open>main\<close>

text \<open>Python's truth value of an optional string and of an optional list.\<close>

fun truthy :: "'a list option \<Rightarrow> bool" where
  "truthy None = False"
| "truthy (Some s) = (s \<noteq> [])"

text \<open>The loop of lines 147 to 156 over the carved results.\<close>

fun report_results :: "env \<Rightarrow> bool \<Rightarrow> result list \<Rightarrow> event list \<times> outcome" where
  "report_results e nh [] = ([], Returned)"
| "report_results e nh (r # rs) =
     (if rtype r = ''SecretFound'' then
        (let (evs, out) = report_results e nh rs in (ReportSecret r @ evs, out))
      else if \<not> nh then
        (case env_hashcat e [product r] of
           Inl ex \<Rightarrow> ([Call_hashcat [product r]], Raised ex)
         | Inr hashcat_candidates \<Rightarrow>
             (let r' = (if hashcat_candidates \<noteq> [] then r\<lparr>hashcat := Some hashcat_candidates\<rparr>
                        else r);
                  (evs, out) = report_results e nh rs
              in (Call_hashcat [product r] # ReportIdentify r' @ evs, out)))
      else
        (let (evs, out) = report_results e nh rs in (ReportIdentify r @ evs, out)))"

definition proxies_of :: "args \<Rightarrow> (string \<times> string) list option" where
  "proxies_of a =
     (if truthy (proxy a) then Some [(''http'', the (proxy a)), (''https'', the (proxy a))]
      else None)"

definition headers_of :: "args \<Rightarrow> (string \<times> string) list" where
  "headers_of a =
     (if truthy (user_agent a) then [(''User-agent'', the (user_agent a))] else [])"

definition url_mode :: "env \<Rightarrow> args \<Rightarrow> event list \<times> outcome" where
  "url_mode e a =
     (let u = the (url a); proxies = proxies_of a; hdrs = headers_of a
      in case env_get e u proxies hdrs of
           Inl ex \<Rightarrow>
             (if ex = ConnectionError \<or> ex = ConnectTimeout then
                ([Call_get u proxies hdrs, Print (''Error connecting to URL: ['' @ u @ '']'')],
                 Returned)
              else ([Call_get u proxies hdrs], Raised ex))
         | Inr res \<Rightarrow>
             (case env_carve e res of
                Inl ex \<Rightarrow> ([Call_get u proxies hdrs, Call_carve res], Raised ex)
              | Inr r_list \<Rightarrow>
                  if truthy r_list then
                    (let (evs, out) = report_results e (no_hashcat a) (the r_list)
                     in (Call_get u proxies hdrs # Call_carve res # evs, out))
                  else
                    ([Call_get u proxies hdrs, Call_carve res, Print ''No secrets found :(''],
                     Returned)))"

definition custom_resource_of :: "args \<Rightarrow> string option" where
  "custom_resource_of a = (if truthy (custom_secrets a) then custom_secrets a else None)"

definition product_mode :: "env \<Rightarrow> args \<Rightarrow> event list \<times> outcome" where
  "product_mode e a =
     (let custom_resource = custom_resource_of a
      in case env_check e (arg_product a) custom_resource of
           Inl ex \<Rightarrow> ([Call_check (arg_product a) custom_resource], Raised ex)
         | Inr (Some x) \<Rightarrow> (Call_check (arg_product a) custom_resource # ReportSecret x, Returned)
         | Inr None \<Rightarrow>
             (if \<not> no_hashcat a then
                (case env_hashcat e (arg_product a) of
                   Inl ex \<Rightarrow>
                     ([Call_check (arg_product a) custom_resource, Print ''No secrets found :('',
                       Call_hashcat (arg_product a)], Raised ex)
                 | Inr hashcat_candidates \<Rightarrow>
                     ([Call_check (arg_product a) custom_resource, Print ''No secrets found :('',
                       Call_hashcat (arg_product a)]
                      @ (if hashcat_candidates \<noteq> [] then print_hashcat_results hashcat_candidates
                         else []),
                      Returned))
              else
                ([Call_check (arg_product a) custom_resource, Print ''No secrets found :(''],
                 Returned)))"

definition usage_no_input :: string where
  "usage_no_input = ''Either supply the product as a positional argument (supply all products for multi-product modules), use --hashcat followed by the product as a positional argument, or use --url mode with a valid URL''"

definition usage_both :: string where
  "usage_both = ''In --url mode, no positional arguments should be used''"

definition banner :: event where
  "banner = Print ''badsecrets - command line interface\<newline>''"

text \<open>
  \<open>main\<close> from line 118 on, on the parsed arguments. \<open>parser.error\<close> writes the usage
  message and exits with status 2.
\<close>

definition main :: "env \<Rightarrow> args \<Rightarrow> event list \<times> outcome" where
  "main e a =
     (if \<not> truthy (url a) \<and> arg_product a = [] then
        ([banner, ParserError usage_no_input], Exited 2)
      else if truthy (url a) \<and> arg_product a \<noteq> [] then
        ([banner, ParserError usage_both], Exited 2)
      else
        (let (evs, out) = (if truthy (url a) then url_mode e a else product_mode e a)
         in (banner # evs, out)))"

text \<open>
  \<open>parse_args\<close> (line 116) applies \<open>type=validate_file\<close> to the value of
  \<open>--custom-secrets\<close> when the option is given; an \<open>ArgumentTypeError\<close> becomes the usage
  error, before the banner, with the name of the argument in front of the message. The
  other arguments are taken as parsed.
\<close>

definition cli :: "filesystem \<Rightarrow> env \<Rightarrow> args \<Rightarrow> event list \<times> outcome" where
  "cli fs e raw =
     (case custom_secrets raw of
        None \<Rightarrow> main e raw
      | Some file \<Rightarrow>
          (case validate_file fs file of
             Inl (ArgumentTypeError msg) \<Rightarrow>
               ([ParserError (''argument -c/--custom-secrets: '' @ msg)], Exited 2)
           | Inr f \<Rightarrow> main e (raw\<lparr>custom_secrets := Some f\<rparr>)))"

text \<open>Whether a run called the engine at all.\<close>

fun engine_call :: "event \<Rightarrow> bool" where
  "engine_call (Call_carve _) = True"
| "engine_call (Call_check _ _) = True"
| "engine_call (Call_hashcat _) = True"
| "engine_call _ = False"

section \<open>The detection engine (badsecrets.base)\<close>

text \<open>
  \<open>cli.py\<close> imports the three entry points of the engine from \<open>badsecrets.base\<close> and
  calls them; the module itself is not among the sources verified here. The definitions
  of this section follow the specification of the engine.
\<close>

subsection \<open>Modules, registry and dictionary\<close>

text \<open>
  Modelled from the spec: the places a response is searched (named cookies, named
  headers, the body), which \<open>badsecrets.base\<close> would define. The label is what a result
  records as its \<open>location\<close>.
\<close>

datatype loc = Cookie string | Header string | Body

text \<open>
  Modelled from the spec: the text a result of \<open>badsecrets.base\<close> records as its location,
  as in \<open>Cookie: session\<close>.
\<close>

fun location_label :: "loc \<Rightarrow> string" where
  "location_label (Cookie n) = ''Cookie: '' @ n"
| "location_label (Header n) = ''Header: '' @ n"
| "location_label Body = ''Body''"

text \<open>
  Modelled from the spec: the ways a raw token fails to decode inside a module of
  \<open>badsecrets.base\<close> (malformed base64, wrong segment count, other corrupt data).
\<close>

datatype decode_error = MalformedBase64 | WrongSegmentCount | CorruptToken string

text \<open>
  Modelled from the spec: a Module of \<open>badsecrets.base\<close>, with its identity, its product
  descriptor (product name, product category, secret category), its detection logic and
  its optional hashcat template. The detection logic is the number of positional values
  the module takes, the decoding of the raw values (which fails on malformed input), the
  verification of a decoded token under one key (giving the decoded claims), the
  structural test of the format, and the candidates the module extracts at a location.
\<close>

record module =
  m_name :: string
  m_product_name :: string
  m_product_category :: string
  m_secret_category :: string
  m_arity :: nat
  m_decode :: "string list \<Rightarrow> decode_error + string"
  m_verify :: "string \<Rightarrow> string \<Rightarrow> string option"
  m_identify :: "string \<Rightarrow> bool"
  m_extract :: "loc \<Rightarrow> string \<Rightarrow> string list"
  m_hashcat :: "(string \<times> (string \<Rightarrow> string)) option"

text \<open>
  Modelled from the spec: the SecretDictionary of \<open>badsecrets.base\<close>, key material with
  its origin, in the order the entries are tried.
\<close>

datatype origin = Default | Custom

type_synonym SecretDictionary = "(string \<times> origin) list"

text \<open>
  Modelled from the spec: the engine's registry (modules in registration order), its
  default secrets, and the parser of one entry of a custom-secret file, all of
  \<open>badsecrets.base\<close>.
\<close>

record engine =
  registry :: "module list"
  default_secrets :: "string list"
  parse_entry :: "string \<Rightarrow> string option"

text \<open>
  Modelled from the spec: the merge of custom entries into the dictionary of one scan in
  \<open>badsecrets.base\<close>; custom entries shadow equal defaults and the default set itself is
  left as it is.
\<close>

definition merge_custom :: "string list \<Rightarrow> string list \<Rightarrow> SecretDictionary" where
  "merge_custom custom defaults =
     map (\<lambda>k. (k, Custom)) custom @
     map (\<lambda>k. (k, Default)) (filter (\<lambda>k. k \<notin> set custom) defaults)"

subsection \<open>The per-module detector\<close>

text \<open>
  Modelled from the spec: the two final states of a detection attempt of a module of
  \<open>badsecrets.base\<close>, \<open>Matched\<close> with the secret and the details, or \<open>Unmatched\<close>.
\<close>

datatype verdict = Matched string string | Unmatched

text \<open>
  Modelled from the spec: the loop of a module's \<open>check\<close> in \<open>badsecrets.base\<close> over the
  entries of the dictionary, tried in turn; the first that verifies gives \<open>Matched\<close>.
\<close>

fun try_entries :: "(string \<Rightarrow> string option) \<Rightarrow> SecretDictionary \<Rightarrow> verdict" where
  "try_entries v [] = Unmatched"
| "try_entries v ((k, og) # ks) =
     (case v k of Some d \<Rightarrow> Matched k d | None \<Rightarrow> try_entries v ks)"

text \<open>
  Modelled from the spec: the \<open>check\<close> of a module in \<open>badsecrets.base\<close>. A mismatched
  arity and a token that does not decode count as \<open>Unmatched\<close>.
\<close>

definition check :: "module \<Rightarrow> string list \<Rightarrow> SecretDictionary \<Rightarrow> verdict" where
  "check m vals dict =
     (if length vals \<noteq> m_arity m then Unmatched
      else case m_decode m vals of
             Inl err \<Rightarrow> Unmatched
           | Inr tok \<Rightarrow> try_entries (m_verify m tok) dict)"

text \<open>
  Modelled from the spec: the \<open>SecretFound\<close> variant of DetectionResult built by
  \<open>badsecrets.base\<close>, as the dictionary the reports read.
\<close>

definition SecretFound :: "module \<Rightarrow> string \<Rightarrow> string \<Rightarrow> string \<Rightarrow> result" where
  "SecretFound m l k d =
     \<lparr>rtype = ''SecretFound'', detecting_module = m_name m,
      description = \<lparr>d_product = m_product_category m, d_secret = m_secret_category m\<rparr>,
      product = m_product_name m, location = l, secret = k, details = d, hashcat = None\<rparr>"

text \<open>
  Modelled from the spec: the \<open>ProductIdentified\<close> variant of DetectionResult built by
  \<open>badsecrets.base\<close>, with its optional hashcat suggestions; it carries no secret and no
  details.
\<close>

definition ProductIdentified ::
  "module \<Rightarrow> string \<Rightarrow> hashcat_candidate list option \<Rightarrow> result" where
  "ProductIdentified m l hc =
     \<lparr>rtype = ''ProductIdentified'', detecting_module = m_name m,
      description = \<lparr>d_product = m_product_category m, d_secret = m_secret_category m\<rparr>,
      product = m_product_name m, location = l, secret = [], details = [], hashcat = hc\<rparr>"

text \<open>
  Modelled from the spec: the optional hashcat suggestions of an identified product in
  \<open>badsecrets.base\<close>: the template of the module, when it has one, with the observed
  token substituted.
\<close>

definition suggestion :: "module \<Rightarrow> string \<Rightarrow> hashcat_candidate list option" where
  "suggestion m token =
     (case m_hashcat m of
        None \<Rightarrow> None
      | Some (desc, tmpl) \<Rightarrow>
          Some [\<lparr>hc_detecting_module = m_name m, hashcat_description = desc,
                 hashcat_command = tmpl token\<rparr>])"

subsection \<open>check_all_modules\<close>

text \<open>
  Modelled from the spec: the hard error \<open>badsecrets.base\<close> raises for a custom-secret
  file it cannot load.
\<close>

datatype engine_error = CustomSecretsError string

text \<open>
  Modelled from the spec: the parsing of the lines of a custom-secret file in
  \<open>badsecrets.base\<close>; one entry that does not parse fails the whole file.
\<close>

fun parse_entries :: "(string \<Rightarrow> string option) \<Rightarrow> string list \<Rightarrow> string list option" where
  "parse_entries p [] = Some []"
| "parse_entries p (l # ls) =
     (case p l of
        None \<Rightarrow> None
      | Some k \<Rightarrow> (case parse_entries p ls of None \<Rightarrow> None | Some ks \<Rightarrow> Some (k # ks)))"

text \<open>
  Modelled from the spec: the loading of a custom-secret file in \<open>badsecrets.base\<close>. The
  file is given by its lines; a file that cannot be read or does not parse is an error.
\<close>

definition load_custom ::
  "engine \<Rightarrow> (string \<Rightarrow> string list option) \<Rightarrow> string \<Rightarrow> engine_error + string list" where
  "load_custom eng files path =
     (case files path of
        None \<Rightarrow> Inl (CustomSecretsError path)
      | Some ls \<Rightarrow>
          (case parse_entries (parse_entry eng) ls of
             None \<Rightarrow> Inl (CustomSecretsError path)
           | Some ks \<Rightarrow> Inr ks))"

text \<open>
  Modelled from the spec: the iteration of \<open>check_all_modules\<close> in \<open>badsecrets.base\<close> over
  the modules in registration order, stopping at the first match. The second component
  lists the modules whose check was attempted. The spec names no location for a value
  checked directly; the result records the first value.
\<close>

fun first_match ::
  "module list \<Rightarrow> string list \<Rightarrow> SecretDictionary \<Rightarrow> result option \<times> string list" where
  "first_match [] vals dict = (None, [])"
| "first_match (m # ms) vals dict =
     (case check m vals dict of
        Matched k d \<Rightarrow> (Some (SecretFound m (concat (take 1 vals)) k d), [m_name m])
      | Unmatched \<Rightarrow> (let (r, c) = first_match ms vals dict in (r, m_name m # c)))"

text \<open>
  Modelled from the spec: the dictionary of one scan in \<open>badsecrets.base\<close>: the defaults,
  with the entries of the custom resource merged in when one is given. A failure to load
  the resource is the result.
\<close>

definition scan_dictionary ::
  "engine \<Rightarrow> (string \<Rightarrow> string list option) \<Rightarrow> string option
     \<Rightarrow> engine_error + SecretDictionary" where
  "scan_dictionary eng files custom_resource =
     (case custom_resource of
        None \<Rightarrow> Inr (merge_custom [] (default_secrets eng))
      | Some path \<Rightarrow>
          (case load_custom eng files path of
             Inl err \<Rightarrow> Inl err
           | Inr ks \<Rightarrow> Inr (merge_custom ks (default_secrets eng))))"

text \<open>
  Modelled from the spec: \<open>check_all_modules\<close> of \<open>badsecrets.base\<close>. The dictionary is
  built before any module runs; the engine is returned as the scan leaves it.
\<close>

definition check_all_modules ::
  "engine \<Rightarrow> (string \<Rightarrow> string list option) \<Rightarrow> string list \<Rightarrow> string option
     \<Rightarrow> (engine_error + result option) \<times> string list \<times> engine" where
  "check_all_modules eng files candidate_values custom_resource =
     (case scan_dictionary eng files custom_resource of
        Inl err \<Rightarrow> (Inl err, [], eng)
      | Inr dict \<Rightarrow>
          (let (r, c) = first_match (registry eng) candidate_values dict
           in (Inr r, c, eng)))"

subsection \<open>carve_all_modules\<close>

text \<open>
  Modelled from the spec: the locations of a response that \<open>carve_all_modules\<close> of
  \<open>badsecrets.base\<close> searches, each with its text.
\<close>

definition locations :: "response \<Rightarrow> (loc \<times> string) list" where
  "locations res =
     map (\<lambda>(n, v). (Cookie n, v)) (cookies res) @
     map (\<lambda>(n, v). (Header n, v)) (headers res) @
     [(Body, body res)]"

text \<open>
  Modelled from the spec: the detection path of one module on one extracted candidate in
  \<open>badsecrets.base\<close>: a known secret, or the product alone when the format matches and no
  entry verifies, or nothing.
\<close>

definition detect :: "module \<Rightarrow> SecretDictionary \<Rightarrow> loc \<Rightarrow> string \<Rightarrow> result option" where
  "detect m dict l cand =
     (case check m [cand] dict of
        Matched k d \<Rightarrow> Some (SecretFound m (location_label l) k d)
      | Unmatched \<Rightarrow>
          if m_identify m cand
          then Some (ProductIdentified m (location_label l) (suggestion m cand))
          else None)"

text \<open>
  Modelled from the spec: the carving of one location in \<open>badsecrets.base\<close>, by every
  module in registration order on the candidates it extracts there.
\<close>

definition carve_at :: "module list \<Rightarrow> SecretDictionary \<Rightarrow> loc \<times> string \<Rightarrow> result list" where
  "carve_at ms dict lt =
     concat (map (\<lambda>m. List.map_filter (detect m dict (fst lt)) (m_extract m (fst lt) (snd lt))) ms)"

text \<open>
  Modelled from the spec: \<open>carve_all_modules\<close> of \<open>badsecrets.base\<close>, which accumulates the
  results of every location of the response.
\<close>

definition carve_all_modules :: "engine \<Rightarrow> response \<Rightarrow> result list" where
  "carve_all_modules eng res =
     concat (map (carve_at (registry eng) (merge_custom [] (default_secrets eng)))
                 (locations res))"

subsection \<open>hashcat_all_modules\<close>




section \<open>Example inputs\<close>

definition fs_example :: filesystem where
  "fs_example p =
     (if p = ''keys.txt'' then Some \<lparr>isfile = True, getsize = 2048\<rparr>
      else if p = ''big.txt'' then Some \<lparr>isfile = True, getsize = 102401\<rparr>
      else if p = ''dir'' then Some \<lparr>isfile = False, getsize = 4096\<rparr>
      else None)"

definition args_url :: args where
  "args_url = \<lparr>url = Some ''http://example.com'', no_hashcat = False, custom_secrets = None,
                arg_product = [], proxy = None, user_agent = None\<rparr>"

definition args_product :: args where
  "args_product = \<lparr>url = None, no_hashcat = False, custom_secrets = None,
                    arg_product = [''tok''], proxy = None, user_agent = None\<rparr>"

definition res_empty :: response where
  "res_empty = \<lparr>headers = [], cookies = [], body = []\<rparr>"

definition env_nothing :: env where
  "env_nothing = \<lparr>env_get = (\<lambda>u p h. Inr res_empty), env_carve = (\<lambda>res. Inr (Some [])),
                   env_check = (\<lambda>vals c. Inr None), env_hashcat = (\<lambda>ps. Inr [])\<rparr>"

definition env_broken :: env where
  "env_broken = env_nothing\<lparr>env_get := (\<lambda>u p h. Inl (OtherException ''ChunkedEncodingError''))\<rparr>"

definition env_unreachable :: env where
  "env_unreachable = env_nothing\<lparr>env_get := (\<lambda>u p h. Inl ConnectionError)\<rparr>"

definition mod_jwt :: module where
  "mod_jwt =
     \<lparr>m_name = ''Generic_JWT'', m_product_name = ''JWT'',
      m_product_category = ''JSON Web Token'', m_secret_category = ''HMAC key'',
      m_arity = 1,
      m_decode = (\<lambda>vals. if vals = [''tok''] then Inr ''payload'' else
                          if vals = [''eyJ''] then Inr ''other'' else Inl MalformedBase64),
      m_verify = (\<lambda>tok k. if tok = ''payload'' \<and> k = ''secret'' then Some ''claims'' else
                           if tok = ''other'' \<and> k = ''k2'' then Some ''custom claims''
                           else None),
      m_identify = (\<lambda>c. take 3 c = ''eyJ''),
      m_extract = (\<lambda>l t. case l of Cookie n \<Rightarrow> (if n = ''session'' then [t] else [])
                                   | Header n \<Rightarrow> [] | Body \<Rightarrow> []),
      m_hashcat = Some (''JSON Web Token'', \<lambda>t. ''hashcat -m 16500 '' @ t)\<rparr>"

definition mod_any :: module where
  "mod_any =
     \<lparr>m_name = ''Catch_All'', m_product_name = ''Any'',
      m_product_category = ''Any token'', m_secret_category = ''Any key'',
      m_arity = 1,
      m_decode = (\<lambda>vals. Inr (concat vals)),
      m_verify = (\<lambda>tok k. Some tok),
      m_identify = (\<lambda>c. True),
      m_extract = (\<lambda>l t. []),
      m_hashcat = None\<rparr>"

definition eng_example :: engine where
  "eng_example =
     \<lparr>registry = [mod_jwt, mod_any], default_secrets = [''secret''],
      parse_entry = (\<lambda>l. if l = [] then None else Some l)\<rparr>"

definition eng_jwt :: engine where
  "eng_jwt = eng_example\<lparr>registry := [mod_jwt]\<rparr>"

definition files_example :: "string \<Rightarrow> string list option" where
  "files_example p =
     (if p = ''keys.txt'' then Some [''k1'', ''k2'']
      else if p = ''bad.txt'' then Some [''k1'', [], ''k3'']
      else None)"

definition env_bad_file :: env where
  "env_bad_file =
     env_nothing\<lparr>env_check := (\<lambda>vals c. if c = Some ''bad.txt''
                                          then Inl (OtherException ''BadsecretsException'')
                                          else Inr None)\<rparr>"


definition env_carver :: env where
  "env_carver =
     env_nothing\<lparr>env_carve := (\<lambda>res. Inr (Some (carve_all_modules eng_jwt res)))\<rparr>"












section \<open>Properties of the command line interface\<close>

subsection \<open>validate_file\<close>

lemma validate_file_cases:
  "fs file = None \<Longrightarrow>
     validate_file fs file = Inl (ArgumentTypeError (''The file '' @ file @ '' does not exist!''))"
  "fs file = Some st \<Longrightarrow> \<not> isfile st \<Longrightarrow>
     validate_file fs file = Inl (ArgumentTypeError (file @ '' is not a valid file!''))"
  "fs file = Some st \<Longrightarrow> isfile st \<Longrightarrow> getsize st > 100 * 1024 \<Longrightarrow>
     validate_file fs file =
       Inl (ArgumentTypeError (''The file '' @ file @ '' exceeds the maximum limit of 100KB!''))"
  "fs file = Some st \<Longrightarrow> isfile st \<Longrightarrow> getsize st \<le> 100 * 1024 \<Longrightarrow>
     validate_file fs file = Inr file"
  by (simp_all add: validate_file_def)

lemma validate_file_Inr_iff:
  "validate_file fs file = Inr p \<longleftrightarrow>
     (\<exists>st. fs file = Some st \<and> isfile st \<and> getsize st \<le> 100 * 1024) \<and> p = file"
  by (cases "fs file") (auto simp: validate_file_def)

lemma cli_rejected:
  "custom_secrets raw = Some file \<Longrightarrow> validate_file fs file = Inl (ArgumentTypeError msg) \<Longrightarrow>
     cli fs e raw = ([ParserError (''argument -c/--custom-secrets: '' @ msg)], Exited 2)"
  by (simp add: cli_def)

text \<open>
  C4. \<open>validate_file\<close> accepts a path exactly when the path exists, is a regular file and
  has at most 100 * 1024 bytes, and then returns the path as given. Otherwise it raises
  \<open>ArgumentTypeError\<close> with the message of the failing test. A custom-secret file of more
  than 100 * 1024 bytes therefore ends the run in the usage error of the argument parser,
  and no function of the engine is called.
\<close>

theorem validate_file_accepts_iff:
  "(validate_file fs file = Inr p \<longleftrightarrow>
      (\<exists>st. fs file = Some st \<and> isfile st \<and> getsize st \<le> 100 * 1024) \<and> p = file)
   \<and> (fs file = None \<longrightarrow>
        validate_file fs file
          = Inl (ArgumentTypeError (''The file '' @ file @ '' does not exist!'')))
   \<and> (fs file = Some st \<and> \<not> isfile st \<longrightarrow>
        validate_file fs file = Inl (ArgumentTypeError (file @ '' is not a valid file!'')))
   \<and> (fs file = Some st \<and> isfile st \<and> getsize st > 100 * 1024 \<longrightarrow>
        validate_file fs file
          = Inl (ArgumentTypeError
                   (''The file '' @ file @ '' exceeds the maximum limit of 100KB!'')))
   \<and> (custom_secrets raw = Some file \<and> fs file = Some st \<and> getsize st > 100 * 1024 \<longrightarrow>
        (\<exists>msg. cli fs e raw = ([ParserError msg], Exited 2))
        \<and> (\<forall>ev \<in> set (fst (cli fs e raw)). \<not> engine_call ev))"
proof (intro conjI impI)
  show "validate_file fs file = Inr p \<longleftrightarrow>
      (\<exists>st. fs file = Some st \<and> isfile st \<and> getsize st \<le> 100 * 1024) \<and> p = file"
    by (rule validate_file_Inr_iff)
next
  assume "fs file = None"
  then show "validate_file fs file
          = Inl (ArgumentTypeError (''The file '' @ file @ '' does not exist!''))"
    by (rule validate_file_cases)
next
  assume "fs file = Some st \<and> \<not> isfile st"
  then show "validate_file fs file = Inl (ArgumentTypeError (file @ '' is not a valid file!''))"
    by (simp add: validate_file_cases)
next
  assume "fs file = Some st \<and> isfile st \<and> getsize st > 100 * 1024"
  then show "validate_file fs file
          = Inl (ArgumentTypeError
                   (''The file '' @ file @ '' exceeds the maximum limit of 100KB!''))"
    by (simp add: validate_file_cases)
next
  assume h: "custom_secrets raw = Some file \<and> fs file = Some st \<and> getsize st > 100 * 1024"
  then obtain msg where m: "validate_file fs file = Inl (ArgumentTypeError msg)"
    by (cases "isfile st") (simp_all add: validate_file_cases)
  with h have c: "cli fs e raw
                    = ([ParserError (''argument -c/--custom-secrets: '' @ msg)], Exited 2)"
    by (simp add: cli_rejected)
  from c show "\<exists>msg. cli fs e raw = ([ParserError msg], Exited 2)" by blast
  from c show "\<forall>ev \<in> set (fst (cli fs e raw)). \<not> engine_call ev" by simp
qed

theorem validate_file_accepts_iff_witness:
  "validate_file fs_example ''keys.txt'' = Inr ''keys.txt''
   \<and> validate_file fs_example ''big.txt''
       = Inl (ArgumentTypeError ''The file big.txt exceeds the maximum limit of 100KB!'')
   \<and> cli fs_example env_nothing (args_product\<lparr>custom_secrets := Some ''big.txt''\<rparr>)
       = ([ParserError ''argument -c/--custom-secrets: The file big.txt exceeds the maximum limit of 100KB!''],
          Exited 2)"
  using validate_file_accepts_iff [of fs_example "''keys.txt''" "''keys.txt''"
      "\<lparr>isfile = True, getsize = 102401\<rparr>"
      "args_product\<lparr>custom_secrets := Some ''big.txt''\<rparr>" env_nothing]
  by (simp add: fs_example_def validate_file_def cli_def)

subsection \<open>A fetch that raises\<close>

text \<open>
  A fetch that raises an exception other than the two named at line 141, here requests'
  \<open>ChunkedEncodingError\<close> of a connection broken while the body is read: \<open>main\<close> prints no
  error message and does not return, the exception leaves \<open>main\<close>.
\<close>

theorem fetch_failure_counterexample:
  "env_get env_broken (the (url args_url)) (proxies_of args_url) (headers_of args_url)
     = Inl (OtherException ''ChunkedEncodingError'')
   \<and> main env_broken args_url
     = ([banner, Call_get ''http://example.com'' None []],
        Raised (OtherException ''ChunkedEncodingError''))"
  by (simp add: env_broken_def env_nothing_def args_url_def main_def url_mode_def
        proxies_of_def headers_of_def Let_def)

text \<open>
  C2, amended. When the fetch of URL mode raises \<open>ConnectionError\<close> or \<open>ConnectTimeout\<close>,
  \<open>main\<close> prints \<open>Error connecting to URL: [url]\<close> and returns; when it raises any other
  exception, \<open>main\<close> prints nothing further and the exception propagates. In both cases
  \<open>carve_all_modules\<close> is never called and no result is printed.
\<close>

theorem fetch_failure_aborts:
  assumes "truthy (url a)" and "arg_product a = []"
    and "env_get e (the (url a)) (proxies_of a) (headers_of a) = Inl ex"
  shows "main e a =
           (if ex = ConnectionError \<or> ex = ConnectTimeout then
              ([banner, Call_get (the (url a)) (proxies_of a) (headers_of a),
                Print (''Error connecting to URL: ['' @ the (url a) @ '']'')], Returned)
            else ([banner, Call_get (the (url a)) (proxies_of a) (headers_of a)], Raised ex))
         \<and> (\<forall>ev \<in> set (fst (main e a)). \<not> engine_call ev)"
  using assms by (simp add: main_def url_mode_def Let_def banner_def)

theorem fetch_failure_aborts_witness:
  "main env_unreachable args_url
     = ([banner, Call_get ''http://example.com'' None [],
         Print ''Error connecting to URL: [http://example.com]''], Returned)
   \<and> main env_broken args_url
     = ([banner, Call_get ''http://example.com'' None []],
        Raised (OtherException ''ChunkedEncodingError''))"
  using fetch_failure_aborts [of args_url env_unreachable ConnectionError]
    fetch_failure_aborts [of args_url env_broken "OtherException ''ChunkedEncodingError''"]
  by (simp add: env_unreachable_def env_broken_def env_nothing_def args_url_def
        proxies_of_def headers_of_def)

subsection \<open>Custom secrets in URL mode\<close>

lemma url_mode_custom_secrets:
  "url_mode e (a\<lparr>custom_secrets := c\<rparr>) = url_mode e a"
  by (simp add: url_mode_def proxies_of_def headers_of_def cong: sum.case_cong if_cong)

lemma main_custom_secrets:
  "truthy (url a) \<Longrightarrow> main e (a\<lparr>custom_secrets := c\<rparr>) = main e a"
  by (simp add: main_def url_mode_custom_secrets)

text \<open>
  C10. In URL mode the value of \<open>--custom-secrets\<close> has no effect: \<open>main\<close> makes the same
  calls, prints the same lines and ends the same way whatever the value is, and so does
  the whole run for a file that \<open>validate_file\<close> accepts.
\<close>

theorem custom_secrets_ignored_in_url_mode:
  "(truthy (url a) \<longrightarrow> main e (a\<lparr>custom_secrets := c\<rparr>) = main e a)
   \<and> (truthy (url a) \<and> validate_file fs f = Inr f' \<longrightarrow>
        cli fs e (a\<lparr>custom_secrets := Some f\<rparr>) = cli fs e (a\<lparr>custom_secrets := None\<rparr>))"
  by (simp add: main_custom_secrets cli_def)

theorem custom_secrets_ignored_in_url_mode_witness:
  "main env_nothing (args_url\<lparr>custom_secrets := Some ''keys.txt''\<rparr>) = main env_nothing args_url
   \<and> cli fs_example env_nothing (args_url\<lparr>custom_secrets := Some ''keys.txt''\<rparr>)
       = ([banner, Call_get ''http://example.com'' None [], Call_carve res_empty,
           Print ''No secrets found :(''], Returned)
   \<and> cli fs_example env_nothing (args_url\<lparr>custom_secrets := None\<rparr>)
       = ([banner, Call_get ''http://example.com'' None [], Call_carve res_empty,
           Print ''No secrets found :(''], Returned)"
  using custom_secrets_ignored_in_url_mode
    [of args_url env_nothing "Some ''keys.txt''" fs_example "''keys.txt''" "''keys.txt''"]
  by (simp add: args_url_def env_nothing_def fs_example_def validate_file_def cli_def main_def
        url_mode_def proxies_of_def headers_of_def Let_def)

section \<open>Properties of the engine and of its use by the command line interface\<close>

subsection \<open>First match wins\<close>

lemma first_match_None:
  "\<forall>m \<in> set ms. check m vals dict = Unmatched \<Longrightarrow>
     first_match ms vals dict = (None, map m_name ms)"
  by (induction ms) simp_all

lemma first_match_Unmatched:
  "check m vals dict = Unmatched \<Longrightarrow>
     first_match (m # ms) vals dict
       = (fst (first_match ms vals dict), m_name m # snd (first_match ms vals dict))"
  by (cases "first_match ms vals dict") simp

lemma first_match_Matched:
  "check m vals dict = Matched k d \<Longrightarrow>
     first_match (m # ms) vals dict
       = (Some (SecretFound m (concat (take 1 vals)) k d), [m_name m])"
  by simp

lemma first_match_Some:
  "fst (first_match ms vals dict) = Some r \<Longrightarrow>
     \<exists>i < length ms.
        (\<exists>k d. check (ms ! i) vals dict = Matched k d
               \<and> r = SecretFound (ms ! i) (concat (take 1 vals)) k d)
        \<and> (\<forall>j < i. check (ms ! j) vals dict = Unmatched)
        \<and> snd (first_match ms vals dict) = map m_name (take (Suc i) ms)"
proof (induction ms)
  case Nil
  then show ?case by simp
next
  case (Cons m ms)
  show ?case
  proof (cases "check m vals dict")
    case (Matched k d)
    with Cons.prems have "r = SecretFound m (concat (take 1 vals)) k d"
      by (simp add: first_match_Matched del: first_match.simps)
    with Matched have
      "(\<exists>k d. check ((m # ms) ! 0) vals dict = Matched k d
               \<and> r = SecretFound ((m # ms) ! 0) (concat (take 1 vals)) k d)
        \<and> (\<forall>j < 0. check ((m # ms) ! j) vals dict = Unmatched)
        \<and> snd (first_match (m # ms) vals dict) = map m_name (take (Suc 0) (m # ms))"
      by simp
    then show ?thesis by (intro exI [of _ 0]) simp
  next
    case Unmatched
    with Cons.prems have "fst (first_match ms vals dict) = Some r"
      by (simp add: first_match_Unmatched del: first_match.simps)
    from Cons.IH [OF this] obtain i where i: "i < length ms"
      and m: "\<exists>k d. check (ms ! i) vals dict = Matched k d
               \<and> r = SecretFound (ms ! i) (concat (take 1 vals)) k d"
      and u: "\<forall>j < i. check (ms ! j) vals dict = Unmatched"
      and c: "snd (first_match ms vals dict) = map m_name (take (Suc i) ms)"
      by blast
    have u': "\<forall>j < Suc i. check ((m # ms) ! j) vals dict = Unmatched"
    proof (intro allI impI)
      fix j assume "j < Suc i"
      then show "check ((m # ms) ! j) vals dict = Unmatched"
        using u Unmatched by (cases j) simp_all
    qed
    have c': "snd (first_match (m # ms) vals dict) = map m_name (take (Suc (Suc i)) (m # ms))"
      using c Unmatched by (simp add: first_match_Unmatched del: first_match.simps)
    from i m u' c' show ?thesis
      by (intro exI [of _ "Suc i"]) simp
  qed
qed

lemma check_all_modules_Inr:
  "scan_dictionary eng files custom_resource = Inr dict \<Longrightarrow>
     check_all_modules eng files vals custom_resource
       = (Inr (fst (first_match (registry eng) vals dict)),
          snd (first_match (registry eng) vals dict), eng)"
  by (simp add: check_all_modules_def case_prod_beta)

lemma check_all_modules_Inl:
  "scan_dictionary eng files custom_resource = Inl err \<Longrightarrow>
     check_all_modules eng files vals custom_resource = (Inl err, [], eng)"
  by (simp add: check_all_modules_def)

lemma product_mode_None:
  "env_check e (arg_product a) (custom_resource_of a) = Inr None \<Longrightarrow>
     take 2 (fst (product_mode e a))
       = [Call_check (arg_product a) (custom_resource_of a), Print ''No secrets found :('']"
  by (simp add: product_mode_def Let_def split: sum.splits)

lemma main_product_mode:
  "\<not> truthy (url a) \<Longrightarrow> arg_product a \<noteq> [] \<Longrightarrow>
     main e a = (banner # fst (product_mode e a), snd (product_mode e a))"
  by (simp add: main_def split: prod.splits)

lemma main_url_mode:
  "truthy (url a) \<Longrightarrow> arg_product a = [] \<Longrightarrow>
     main e a = (banner # fst (url_mode e a), snd (url_mode e a))"
  by (simp add: main_def split: prod.splits)

lemma first_match_complete:
  "i < length ms \<Longrightarrow> check (ms ! i) vals dict = Matched k d \<Longrightarrow>
   \<forall>j < i. check (ms ! j) vals dict = Unmatched \<Longrightarrow>
     first_match ms vals dict
       = (Some (SecretFound (ms ! i) (concat (take 1 vals)) k d), map m_name (take (Suc i) ms))"
proof (induction ms arbitrary: i)
  case Nil
  then show ?case by simp
next
  case (Cons m ms)
  show ?case
  proof (cases i)
    case 0
    with Cons.prems show ?thesis
      by (simp add: first_match_Matched del: first_match.simps)
  next
    case (Suc n)
    from Cons.prems(3) Suc have "check ((m # ms) ! 0) vals dict = Unmatched" by blast
    then have u: "check m vals dict = Unmatched" by simp
    from Cons.prems(1) Suc have n: "n < length ms" by simp
    from Cons.prems(2) Suc have c: "check (ms ! n) vals dict = Matched k d" by simp
    have a: "\<forall>j < n. check (ms ! j) vals dict = Unmatched"
    proof (intro allI impI)
      fix j assume "j < n"
      then have "Suc j < i" using Suc by simp
      with Cons.prems(3) have "check ((m # ms) ! Suc j) vals dict = Unmatched" by blast
      then show "check (ms ! j) vals dict = Unmatched" by simp
    qed
    from Cons.IH [OF n c a] u Suc show ?thesis
      by (simp add: first_match_Unmatched del: first_match.simps)
  qed
qed

text \<open>
  C1. \<open>check_all_modules\<close> returns at most one result. The first module in registration
  order whose check matches decides the call: its \<open>SecretFound\<close> is returned, the modules
  before it were consulted and did not match, and no module after it is consulted,
  whether or not it would match. Conversely a returned result always comes about in this
  way. When no module matches, every module was consulted and none is returned, and the
  command line interface then prints \<open>No secrets found :(\<close>; a returned result is
  reported once.
\<close>

theorem check_all_modules_first_match:
  "(scan_dictionary eng files custom_resource = Inr dict \<and> i < length (registry eng)
      \<and> check (registry eng ! i) vals dict = Matched k d
      \<and> (\<forall>j < i. check (registry eng ! j) vals dict = Unmatched) \<longrightarrow>
      check_all_modules eng files vals custom_resource
        = (Inr (Some (SecretFound (registry eng ! i) (concat (take 1 vals)) k d)),
           map m_name (take (Suc i) (registry eng)), eng))
   \<and> (scan_dictionary eng files custom_resource = Inr dict
      \<and> (\<forall>m \<in> set (registry eng). check m vals dict = Unmatched) \<longrightarrow>
      check_all_modules eng files vals custom_resource
        = (Inr None, map m_name (registry eng), eng))
   \<and> (scan_dictionary eng files custom_resource = Inr dict
      \<and> fst (check_all_modules eng files vals custom_resource) = Inr (Some r) \<longrightarrow>
      (\<exists>i < length (registry eng).
         (\<exists>k d. check (registry eng ! i) vals dict = Matched k d
                \<and> r = SecretFound (registry eng ! i) (concat (take 1 vals)) k d)
         \<and> (\<forall>j < i. check (registry eng ! j) vals dict = Unmatched)
         \<and> fst (snd (check_all_modules eng files vals custom_resource))
             = map m_name (take (Suc i) (registry eng))))
   \<and> (\<not> truthy (url a) \<and> arg_product a \<noteq> []
      \<and> env_check e (arg_product a) (custom_resource_of a) = Inr None \<longrightarrow>
      take 3 (fst (main e a))
        = [banner, Call_check (arg_product a) (custom_resource_of a),
           Print ''No secrets found :(''])
   \<and> (\<not> truthy (url a) \<and> arg_product a \<noteq> []
      \<and> env_check e (arg_product a) (custom_resource_of a) = Inr (Some x) \<longrightarrow>
      main e a
        = (banner # Call_check (arg_product a) (custom_resource_of a) # ReportSecret x,
           Returned))"
proof (intro conjI impI)
  assume h: "scan_dictionary eng files custom_resource = Inr dict \<and> i < length (registry eng)
      \<and> check (registry eng ! i) vals dict = Matched k d
      \<and> (\<forall>j < i. check (registry eng ! j) vals dict = Unmatched)"
  then have sd: "scan_dictionary eng files custom_resource = Inr dict" by simp
  from h have "first_match (registry eng) vals dict
       = (Some (SecretFound (registry eng ! i) (concat (take 1 vals)) k d),
          map m_name (take (Suc i) (registry eng)))"
    by (intro first_match_complete) simp_all
  then show "check_all_modules eng files vals custom_resource
        = (Inr (Some (SecretFound (registry eng ! i) (concat (take 1 vals)) k d)),
           map m_name (take (Suc i) (registry eng)), eng)"
    by (simp add: check_all_modules_Inr [OF sd])
next
  assume h: "scan_dictionary eng files custom_resource = Inr dict
      \<and> (\<forall>m \<in> set (registry eng). check m vals dict = Unmatched)"
  then have sd: "scan_dictionary eng files custom_resource = Inr dict" by simp
  from h show "check_all_modules eng files vals custom_resource
        = (Inr None, map m_name (registry eng), eng)"
    by (simp add: check_all_modules_Inr [OF sd] first_match_None)
next
  assume h: "scan_dictionary eng files custom_resource = Inr dict
      \<and> fst (check_all_modules eng files vals custom_resource) = Inr (Some r)"
  then have sd: "scan_dictionary eng files custom_resource = Inr dict" by simp
  from h have f: "fst (first_match (registry eng) vals dict) = Some r"
    by (simp add: check_all_modules_Inr [OF sd])
  have c: "fst (snd (check_all_modules eng files vals custom_resource))
             = snd (first_match (registry eng) vals dict)"
    by (simp add: check_all_modules_Inr [OF sd])
  from first_match_Some [OF f] c
  show "\<exists>i < length (registry eng).
         (\<exists>k d. check (registry eng ! i) vals dict = Matched k d
                \<and> r = SecretFound (registry eng ! i) (concat (take 1 vals)) k d)
         \<and> (\<forall>j < i. check (registry eng ! j) vals dict = Unmatched)
         \<and> fst (snd (check_all_modules eng files vals custom_resource))
             = map m_name (take (Suc i) (registry eng))"
    by simp
next
  assume "\<not> truthy (url a) \<and> arg_product a \<noteq> []
      \<and> env_check e (arg_product a) (custom_resource_of a) = Inr None"
  then show "take 3 (fst (main e a))
        = [banner, Call_check (arg_product a) (custom_resource_of a),
           Print ''No secrets found :('']"
    using product_mode_None [of e a] by (simp add: main_product_mode)
next
  assume "\<not> truthy (url a) \<and> arg_product a \<noteq> []
      \<and> env_check e (arg_product a) (custom_resource_of a) = Inr (Some x)"
  then show "main e a
        = (banner # Call_check (arg_product a) (custom_resource_of a) # ReportSecret x,
           Returned)"
    by (simp add: main_product_mode product_mode_def Let_def)
qed

theorem check_all_modules_first_match_witness:
  "check mod_jwt [''zzz''] [(''secret'', Default)] = Unmatched
   \<and> check_all_modules eng_example files_example [''zzz''] None
       = (Inr (Some (SecretFound mod_any ''zzz'' ''secret'' ''zzz'')),
          [''Generic_JWT'', ''Catch_All''], eng_example)
   \<and> check mod_any [''tok''] [(''secret'', Default)] = Matched ''secret'' ''tok''
   \<and> check_all_modules eng_example files_example [''tok''] None
       = (Inr (Some (SecretFound mod_jwt ''tok'' ''secret'' ''claims'')),
          [''Generic_JWT''], eng_example)
   \<and> check_all_modules eng_jwt files_example [''zzz''] None
       = (Inr None, [''Generic_JWT''], eng_jwt)
   \<and> take 3 (fst (main env_nothing args_product))
       = [banner, Call_check [''tok''] None, Print ''No secrets found :('']"
  using check_all_modules_first_match
    [where eng = eng_example and files = files_example and custom_resource = None
       and dict = "[(''secret'', Default)]" and vals = "[''zzz'']" and i = 1
       and k = "''secret''" and d = "''zzz''" and a = args_product and e = env_nothing]
    check_all_modules_first_match
    [where eng = eng_example and files = files_example and custom_resource = None
       and dict = "[(''secret'', Default)]" and vals = "[''tok'']" and i = 0
       and k = "''secret''" and d = "''claims''" and a = args_product and e = env_nothing]
    check_all_modules_first_match
    [where eng = eng_jwt and files = files_example and custom_resource = None
       and dict = "[(''secret'', Default)]" and vals = "[''zzz'']" and i = 0
       and a = args_product and e = env_nothing]
  by (simp add: scan_dictionary_def merge_custom_def eng_example_def
        eng_jwt_def mod_jwt_def mod_any_def check_def args_product_def env_nothing_def
        custom_resource_of_def)

subsection \<open>The custom-secret file\<close>

lemma parse_entries_fails:
  "l \<in> set ls \<Longrightarrow> p l = None \<Longrightarrow> parse_entries p ls = None"
  by (induction ls) (auto split: option.splits)

lemma parse_entries_Some_iff:
  "parse_entries p ls = Some ks \<longleftrightarrow> map p ls = map Some ks"
proof (induction ls arbitrary: ks)
  case Nil
  then show ?case by auto
next
  case (Cons l ls)
  show ?case
  proof (cases "p l")
    case None
    then show ?thesis by (cases ks) auto
  next
    case (Some k)
    show ?thesis
    proof (cases "parse_entries p ls")
      case None
      with Some Cons.IH show ?thesis by (cases ks) auto
    next
      case (Some ks')
      with \<open>p l = Some k\<close> Cons.IH [of ks'] Cons.IH show ?thesis
        by (cases ks) auto
    qed
  qed
qed

lemma load_custom_fails:
  "files path = Some ls \<Longrightarrow> l \<in> set ls \<Longrightarrow> parse_entry eng l = None \<Longrightarrow>
     load_custom eng files path = Inl (CustomSecretsError path)"
  by (simp add: load_custom_def parse_entries_fails)

lemma load_custom_loads:
  "files path = Some ls \<Longrightarrow> map (parse_entry eng) ls = map Some ks \<Longrightarrow>
     load_custom eng files path = Inr ks"
  by (simp add: load_custom_def parse_entries_Some_iff [THEN iffD2])

lemma custom_in_merge:
  "k \<in> set ks \<Longrightarrow> (k, Custom) \<in> set (merge_custom ks defaults)"
  by (auto simp: merge_custom_def)

text \<open>
  C3. With a custom resource, \<open>check_all_modules\<close> loads the file before any module
  runs. A file with an entry that does not parse fails the call as a whole: the error is
  the result, no module is consulted and the engine is as before, whatever entries of the
  file did parse. A file whose lines all parse gives one entry for each line, in the
  order of the file; the dictionary the modules are run on is these entries, marked as
  custom, in front of the defaults they do not shadow, and the result is that of the
  first match on this dictionary. The command line interface passes the path on and lets
  the error leave \<open>main\<close>.
\<close>

theorem custom_resource_loaded_first:
  "(files path = Some ls \<and> l \<in> set ls \<and> parse_entry eng l = None \<longrightarrow>
      check_all_modules eng files vals (Some path) = (Inl (CustomSecretsError path), [], eng))
   \<and> (load_custom eng files path = Inl err \<longrightarrow>
      check_all_modules eng files vals (Some path) = (Inl err, [], eng))
   \<and> (files path = Some ls \<and> map (parse_entry eng) ls = map Some ks \<longrightarrow>
      load_custom eng files path = Inr ks
      \<and> scan_dictionary eng files (Some path)
          = Inr (map (\<lambda>k. (k, Custom)) ks
                 @ map (\<lambda>k. (k, Default)) (filter (\<lambda>k. k \<notin> set ks) (default_secrets eng))))
   \<and> (load_custom eng files path = Inr ks \<longrightarrow>
      check_all_modules eng files vals (Some path)
        = (Inr (fst (first_match (registry eng) vals (merge_custom ks (default_secrets eng)))),
           snd (first_match (registry eng) vals (merge_custom ks (default_secrets eng))), eng)
      \<and> (\<forall>k \<in> set ks. (k, Custom) \<in> set (merge_custom ks (default_secrets eng))))
   \<and> (files path = Some ls \<and> map (parse_entry eng) ls = map Some ks
      \<and> i < length (registry eng)
      \<and> check (registry eng ! i) vals (merge_custom ks (default_secrets eng)) = Matched k d
      \<and> (\<forall>j < i. check (registry eng ! j) vals (merge_custom ks (default_secrets eng))
                    = Unmatched) \<longrightarrow>
      check_all_modules eng files vals (Some path)
        = (Inr (Some (SecretFound (registry eng ! i) (concat (take 1 vals)) k d)),
           map m_name (take (Suc i) (registry eng)), eng))
   \<and> (\<not> truthy (url a) \<and> arg_product a \<noteq> [] \<and> truthy (custom_secrets a)
      \<and> env_check e (arg_product a) (custom_secrets a) = Inl ex \<longrightarrow>
      main e a = ([banner, Call_check (arg_product a) (custom_secrets a)], Raised ex))"
proof (intro conjI impI)
  assume "files path = Some ls \<and> l \<in> set ls \<and> parse_entry eng l = None"
  then have "load_custom eng files path = Inl (CustomSecretsError path)"
    by (blast intro: load_custom_fails)
  then have "scan_dictionary eng files (Some path) = Inl (CustomSecretsError path)"
    by (simp add: scan_dictionary_def)
  then show "check_all_modules eng files vals (Some path)
               = (Inl (CustomSecretsError path), [], eng)"
    by (rule check_all_modules_Inl)
next
  assume "load_custom eng files path = Inl err"
  then have "scan_dictionary eng files (Some path) = Inl err"
    by (simp add: scan_dictionary_def)
  then show "check_all_modules eng files vals (Some path) = (Inl err, [], eng)"
    by (rule check_all_modules_Inl)
next
  assume "files path = Some ls \<and> map (parse_entry eng) ls = map Some ks"
  then show l: "load_custom eng files path = Inr ks"
    by (simp add: load_custom_loads)
  then show "scan_dictionary eng files (Some path)
          = Inr (map (\<lambda>k. (k, Custom)) ks
                 @ map (\<lambda>k. (k, Default)) (filter (\<lambda>k. k \<notin> set ks) (default_secrets eng)))"
    by (simp add: scan_dictionary_def merge_custom_def)
next
  assume "load_custom eng files path = Inr ks"
  then have "scan_dictionary eng files (Some path)
               = Inr (merge_custom ks (default_secrets eng))"
    by (simp add: scan_dictionary_def)
  then show "check_all_modules eng files vals (Some path)
        = (Inr (fst (first_match (registry eng) vals (merge_custom ks (default_secrets eng)))),
           snd (first_match (registry eng) vals (merge_custom ks (default_secrets eng))), eng)"
    by (rule check_all_modules_Inr)
next
  show "\<forall>k \<in> set ks. (k, Custom) \<in> set (merge_custom ks (default_secrets eng))"
    by (simp add: custom_in_merge)
next
  assume h: "files path = Some ls \<and> map (parse_entry eng) ls = map Some ks
      \<and> i < length (registry eng)
      \<and> check (registry eng ! i) vals (merge_custom ks (default_secrets eng)) = Matched k d
      \<and> (\<forall>j < i. check (registry eng ! j) vals (merge_custom ks (default_secrets eng))
                    = Unmatched)"
  then have "load_custom eng files path = Inr ks"
    by (simp add: load_custom_loads)
  then have sd: "scan_dictionary eng files (Some path)
               = Inr (merge_custom ks (default_secrets eng))"
    by (simp add: scan_dictionary_def)
  from h have "first_match (registry eng) vals (merge_custom ks (default_secrets eng))
       = (Some (SecretFound (registry eng ! i) (concat (take 1 vals)) k d),
          map m_name (take (Suc i) (registry eng)))"
    by (intro first_match_complete) simp_all
  then show "check_all_modules eng files vals (Some path)
        = (Inr (Some (SecretFound (registry eng ! i) (concat (take 1 vals)) k d)),
           map m_name (take (Suc i) (registry eng)), eng)"
    by (simp add: check_all_modules_Inr [OF sd])
next
  assume "\<not> truthy (url a) \<and> arg_product a \<noteq> [] \<and> truthy (custom_secrets a)
      \<and> env_check e (arg_product a) (custom_secrets a) = Inl ex"
  then show "main e a = ([banner, Call_check (arg_product a) (custom_secrets a)], Raised ex)"
    by (simp add: main_product_mode product_mode_def custom_resource_of_def)
qed

theorem custom_resource_loaded_first_witness:
  "check_all_modules eng_example files_example [''tok''] (Some ''bad.txt'')
     = (Inl (CustomSecretsError ''bad.txt''), [], eng_example)
   \<and> scan_dictionary eng_jwt files_example (Some ''keys.txt'')
     = Inr [(''k1'', Custom), (''k2'', Custom), (''secret'', Default)]
   \<and> check_all_modules eng_jwt files_example [''eyJ''] (Some ''keys.txt'')
     = (Inr (Some (SecretFound mod_jwt ''eyJ'' ''k2'' ''custom claims'')), [''Generic_JWT''],
        eng_jwt)
   \<and> check_all_modules eng_jwt files_example [''eyJ''] None
     = (Inr None, [''Generic_JWT''], eng_jwt)
   \<and> main env_bad_file (args_product\<lparr>custom_secrets := Some ''bad.txt''\<rparr>)
     = ([banner, Call_check [''tok''] (Some ''bad.txt'')],
        Raised (OtherException ''BadsecretsException''))"
  using custom_resource_loaded_first
    [where files = files_example and path = "''bad.txt''" and ls = "[''k1'', [], ''k3'']"
       and l = "[]" and eng = eng_example and vals = "[''tok'']"
       and a = "args_product\<lparr>custom_secrets := Some ''bad.txt''\<rparr>" and e = env_bad_file
       and ex = "OtherException ''BadsecretsException''"]
    custom_resource_loaded_first
    [where files = files_example and path = "''keys.txt''" and ls = "[''k1'', ''k2'']"
       and ks = "[''k1'', ''k2'']" and eng = eng_jwt and vals = "[''eyJ'']" and i = 0
       and k = "''k2''" and d = "''custom claims''"
       and a = "args_product\<lparr>custom_secrets := Some ''bad.txt''\<rparr>" and e = env_bad_file
       and ex = "OtherException ''BadsecretsException''"]
    check_all_modules_Inr
    [where eng = eng_jwt and files = files_example and custom_resource = None
       and dict = "[(''secret'', Default)]" and vals = "[''eyJ'']"]
  by (simp add: files_example_def eng_example_def eng_jwt_def mod_jwt_def
        check_def merge_custom_def args_product_def env_bad_file_def env_nothing_def
        scan_dictionary_def)

subsection \<open>Carving\<close>

lemma carve_all_modules_Nil_iff:
  "carve_all_modules eng res = [] \<longleftrightarrow>
     (\<forall>lt \<in> set (locations res). \<forall>m \<in> set (registry eng).
        \<forall>cand \<in> set (m_extract m (fst lt) (snd lt)).
          detect m (merge_custom [] (default_secrets eng)) (fst lt) cand = None)"
  by (auto simp: carve_all_modules_def carve_at_def map_filter_def filter_empty_conv)

lemma url_mode_nothing:
  "env_get e (the (url a)) (proxies_of a) (headers_of a) = Inr res \<Longrightarrow>
   env_carve e res = Inr r_list \<Longrightarrow> \<not> truthy r_list \<Longrightarrow>
     url_mode e a
       = ([Call_get (the (url a)) (proxies_of a) (headers_of a), Call_carve res,
           Print ''No secrets found :(''], Returned)"
  by (simp add: url_mode_def)

text \<open>
  C5. \<open>carve_all_modules\<close> returns a sequence of results, and the empty sequence exactly
  when no module detects anything in any candidate it extracts at any location of the
  response. On a result that is empty (or none) the command line interface prints
  \<open>No secrets found :(\<close> and no report.
\<close>

theorem carve_all_modules_nothing_found:
  "(carve_all_modules eng res = [] \<longleftrightarrow>
      (\<forall>lt \<in> set (locations res). \<forall>m \<in> set (registry eng).
         \<forall>cand \<in> set (m_extract m (fst lt) (snd lt)).
           detect m (merge_custom [] (default_secrets eng)) (fst lt) cand = None))
   \<and> (truthy (url a) \<and> arg_product a = []
      \<and> env_get e (the (url a)) (proxies_of a) (headers_of a) = Inr res
      \<and> env_carve e res = Inr r_list \<and> \<not> truthy r_list \<longrightarrow>
      main e a
        = ([banner, Call_get (the (url a)) (proxies_of a) (headers_of a), Call_carve res,
            Print ''No secrets found :(''], Returned))"
  by (simp add: carve_all_modules_Nil_iff main_url_mode url_mode_nothing)

theorem carve_all_modules_nothing_found_witness:
  "carve_all_modules eng_jwt res_empty = []
   \<and> main env_carver args_url
     = ([banner, Call_get ''http://example.com'' None [], Call_carve res_empty,
         Print ''No secrets found :(''], Returned)"
  using carve_all_modules_nothing_found
    [of eng_jwt res_empty args_url env_carver "Some (carve_all_modules eng_jwt res_empty)"]
  by (simp add: locations_def res_empty_def eng_jwt_def eng_example_def mod_jwt_def
        args_url_def env_carver_def env_nothing_def proxies_of_def headers_of_def)

subsection \<open>The loop over the carved results\<close>








subsection \<open>Hashcat suggestions\<close>

















subsection \<open>One variant for each detection, one report for each result\<close>















end
